theory Spec2Isabelle
  imports Complex_Main
begin

section \<open>The BM25 index service (\<^verbatim>\<open>src/bm25-service/bm25_service.py\<close>)\<close>

text \<open>
  The service keeps, per collection name (\<^verbatim>\<open>filename\<close>), a retriever object and a
  metadata dictionary in two in-memory dictionaries of \<^verbatim>\<open>BM25Manager\<close>, and a pickled
  retriever plus a JSON metadata document on disk. The embedding passes the manager
  state explicitly; the state also carries the files of the storage directory, since
  \<^verbatim>\<open>create_index\<close>, \<^verbatim>\<open>search_index\<close> and \<^verbatim>\<open>delete_index\<close> read and write them.
  A raised Python exception is the \<open>Inl\<close> of a sum; every operation returns its
  result together with the state it leaves behind, also when it raises.
\<close>

subsection \<open>Exceptions\<close>

text \<open>
  \<^verbatim>\<open>HTTPException(status_code, detail)\<close> of FastAPI is a subclass of \<^verbatim>\<open>Exception\<close>,
  so an \<^verbatim>\<open>except Exception\<close> clause catches it like any other exception. The detail
  of the handlers is an f-string \<^verbatim>\<open>f"...: {str(e)}"\<close>; its interpolated part is kept
  symbolic as the exception \<open>e\<close> itself (\<open>Wrapped\<close>), the literal prefix as a string.
  \<open>LibraryError\<close> stands for an exception raised inside \<^verbatim>\<open>bm25s\<close>, \<open>OSError\<close> for a
  failed file operation, \<open>LoadError\<close> for a failed \<^verbatim>\<open>pickle.load\<close> or \<^verbatim>\<open>json.load\<close>.
\<close>

datatype py_exception =
    HTTPException (status_code: int) (detail: detail)
  | KeyError string
  | IndexError
  | LibraryError string
  | OSError
  | LoadError
and detail =
    Text string
  | Wrapped string py_exception

subsection \<open>Request and response data\<close>

text \<open>
  \<^verbatim>\<open>ChunkData\<close> has the fields \<^verbatim>\<open>id\<close>, \<^verbatim>\<open>text\<close> and \<^verbatim>\<open>metadata\<close>; the per-chunk
  metadata is opaque to the service and is the type parameter \<open>'m\<close>.
\<close>

record 'm ChunkData =
  cd_id :: string
  cd_text :: string
  cd_metadata :: 'm

text \<open>The dictionary \<^verbatim>\<open>index_metadata\<close> built by \<^verbatim>\<open>create_index\<close>, key by key.\<close>

record 'm index_metadata =
  md_filename :: string
  chunk_count :: nat
  chunk_ids :: "string list"
  chunk_metadata :: "'m list"
  created_at :: string
  corpus_size :: nat

text \<open>One element of \<^verbatim>\<open>results\<close> in \<^verbatim>\<open>search_index\<close>.\<close>

record 'm search_hit =
  rank :: nat
  chunk_id :: string
  score :: real
  hit_metadata :: 'm

text \<open>
  The dictionary returned by \<^verbatim>\<open>search_index\<close>; its \<^verbatim>\<open>status\<close> is always
  \<^verbatim>\<open>"success"\<close>.
\<close>

record 'm search_response =
  sr_status :: string
  sr_query :: string
  sr_filename :: string
  results :: "'m search_hit list"
  total_results :: nat

text \<open>
  The dictionary returned by \<^verbatim>\<open>create_index\<close>. The keys \<^verbatim>\<open>processing_time_seconds\<close>
  and \<^verbatim>\<open>index_size_mb\<close> of the \<^verbatim>\<open>"indexed"\<close> answer are a clock difference and the
  length of a printed object; they are left out. \<^verbatim>\<open>_estimate_index_size\<close> catches
  every exception itself, so it never makes \<^verbatim>\<open>create_index\<close> raise.
\<close>

record create_response =
  cr_status :: string
  cr_filename :: string
  cr_chunks :: nat
  cr_created_at :: "string option"

text \<open>The dictionary returned by the \<^verbatim>\<open>DELETE /index/{filename}\<close> handler.\<close>

record delete_response =
  dr_status :: string
  dr_filename :: string

subsection \<open>The \<^verbatim>\<open>bm25s\<close> library as a parameter\<close>

text \<open>
  \<^verbatim>\<open>bm25s\<close> is a third-party library; none of its code is part of the repository. The
  three calls the service makes are the fields of a record that every operation takes
  as its first argument. \<open>'r\<close> is the type of the retriever object.
  \<^item> \<open>tokenize\<close>: \<^verbatim>\<open>bm25s.tokenize(texts)\<close>, one token sequence per text;
  \<^item> \<open>BM25_index\<close>: \<^verbatim>\<open>bm25s.BM25(corpus=corpus_tokens)\<close> followed by
    \<^verbatim>\<open>retriever.index(corpus_tokens)\<close>, giving the trained retriever;
  \<^item> \<open>retrieve\<close>: \<^verbatim>\<open>retriever.retrieve(query_tokens, k=top_k)\<close>, giving the rows
    \<^verbatim>\<open>scores[0]\<close> and \<^verbatim>\<open>indices[0]\<close> that \<^verbatim>\<open>search_index\<close> iterates over.
  Each of them may raise.
\<close>

record 'r bm25s =
  tokenize :: "string list \<Rightarrow> py_exception + string list list"
  BM25_index :: "string list list \<Rightarrow> py_exception + 'r"
  retrieve :: "'r \<Rightarrow> string list list \<Rightarrow> int \<Rightarrow> py_exception + (real list \<times> int list)"

subsection \<open>The manager state and the storage directory\<close>

text \<open>
  A file of the storage directory holds a pickled retriever, a JSON metadata document
  of the shape \<^verbatim>\<open>_save_index_to_disk\<close> writes, or something that cannot be read back
  (a file truncated by a failed write, an unreadable file): \<^verbatim>\<open>pickle.load\<close> and
  \<^verbatim>\<open>json.load\<close> raise on it, as they do on a file of the other kind.
\<close>

datatype ('r, 'm) file_content =
    Pickle 'r
  | Json "'m index_metadata"
  | Unloadable

record ('r, 'm) BM25Manager =
  storage_path :: string
  indices :: "string \<rightharpoonup> 'r"
  metadata :: "string \<rightharpoonup> 'm index_metadata"
  files :: "string \<rightharpoonup> ('r, 'm) file_content"

text \<open>
  \<^verbatim>\<open>BM25Manager.__init__\<close>: both dictionaries start empty; the storage directory is
  created if missing and keeps the files it has.
\<close>

definition BM25Manager_init ::
  "string \<Rightarrow> (string \<rightharpoonup> ('r, 'm) file_content) \<Rightarrow> ('r, 'm) BM25Manager" where
  "BM25Manager_init sp fs =
     \<lparr>storage_path = sp, indices = Map.empty, metadata = Map.empty, files = fs\<rparr>"

subsection \<open>Storage keys\<close>

text \<open>\<^verbatim>\<open>s.replace(old, new)\<close> for one-character \<^verbatim>\<open>old\<close> and \<^verbatim>\<open>new\<close>.\<close>

definition replace_char :: "char \<Rightarrow> char \<Rightarrow> string \<Rightarrow> string" where
  "replace_char old new s = map (\<lambda>c. if c = old then new else c) s"

text \<open>\<^verbatim>\<open>filename.replace("/", "_").replace("\\", "_")\<close>\<close>

definition safe_filename :: "string \<Rightarrow> string" where
  "safe_filename filename =
     replace_char (CHR 0x5C) (CHR ''_'') (replace_char (CHR ''/'') (CHR ''_'') filename)"

text \<open>
  \<^verbatim>\<open>os.path.join(a, b)\<close> of \<^verbatim>\<open>posixpath\<close> for two components: an absolute \<open>b\<close>
  replaces \<open>a\<close>; otherwise \<open>b\<close> is appended, after a separator unless \<open>a\<close> is empty
  or already ends with one.
\<close>

definition path_join :: "string \<Rightarrow> string \<Rightarrow> string" where
  "path_join a b =
     (if b \<noteq> [] \<and> hd b = CHR ''/'' then b
      else if a = [] \<or> last a = CHR ''/'' then a @ b
      else a @ ''/'' @ b)"

definition get_index_path :: "('r, 'm) BM25Manager \<Rightarrow> string \<Rightarrow> string" where
  "get_index_path s filename = path_join (storage_path s) (safe_filename filename @ ''.bm25'')"

definition get_metadata_path :: "('r, 'm) BM25Manager \<Rightarrow> string \<Rightarrow> string" where
  "get_metadata_path s filename = path_join (storage_path s) (safe_filename filename @ ''.meta'')"

subsection \<open>Saving and loading\<close>

text \<open>
  \<^verbatim>\<open>_save_index_to_disk\<close> opens and writes the index file, then opens and writes the
  metadata file. Each of the four steps can fail in the environment; which one does,
  if any, is an argument. Opening a file for writing truncates it, so a failed dump
  leaves a file that cannot be loaded. The \<^verbatim>\<open>except Exception\<close> clause logs a warning
  and returns: the function never raises.
\<close>

datatype save_fault =
  NoSaveFault | OpenIndexFails | DumpIndexFails | OpenMetadataFails | DumpMetadataFails

definition save_index_to_disk ::
  "save_fault \<Rightarrow> string \<Rightarrow> 'r \<Rightarrow> 'm index_metadata \<Rightarrow> ('r, 'm) BM25Manager \<Rightarrow> ('r, 'm) BM25Manager" where
  "save_index_to_disk io filename retriever md s =
     (let index_path = get_index_path s filename;
          metadata_path = get_metadata_path s filename
      in case io of
           OpenIndexFails \<Rightarrow> s
         | DumpIndexFails \<Rightarrow> s\<lparr>files := (files s)(index_path \<mapsto> Unloadable)\<rparr>
         | OpenMetadataFails \<Rightarrow> s\<lparr>files := (files s)(index_path \<mapsto> Pickle retriever)\<rparr>
         | DumpMetadataFails \<Rightarrow>
             s\<lparr>files := (files s)(index_path \<mapsto> Pickle retriever, metadata_path \<mapsto> Unloadable)\<rparr>
         | NoSaveFault \<Rightarrow>
             s\<lparr>files := (files s)(index_path \<mapsto> Pickle retriever, metadata_path \<mapsto> Json md)\<rparr>)"

text \<open>\<^verbatim>\<open>pickle.load\<close> and \<^verbatim>\<open>json.load\<close> on an existing file.\<close>

definition pickle_load :: "('r, 'm) file_content \<Rightarrow> py_exception + 'r" where
  "pickle_load c = (case c of Pickle r \<Rightarrow> Inr r | _ \<Rightarrow> Inl LoadError)"

definition json_load :: "('r, 'm) file_content \<Rightarrow> py_exception + 'm index_metadata" where
  "json_load c = (case c of Json md \<Rightarrow> Inr md | _ \<Rightarrow> Inl LoadError)"

text \<open>
  \<^verbatim>\<open>_load_index_from_disk\<close>: \<^verbatim>\<open>False\<close> when one of the two paths does not exist;
  otherwise both files are loaded and only then both dictionaries are assigned. An
  exception of either load is caught and gives \<^verbatim>\<open>False\<close> with the state untouched.
\<close>

definition load_index_from_disk ::
  "string \<Rightarrow> ('r, 'm) BM25Manager \<Rightarrow> bool \<times> ('r, 'm) BM25Manager" where
  "load_index_from_disk filename s =
     (let index_path = get_index_path s filename;
          metadata_path = get_metadata_path s filename
      in case (files s index_path, files s metadata_path) of
           (Some ic, Some mc) \<Rightarrow>
             (case pickle_load ic of
                Inl e \<Rightarrow> (False, s)
              | Inr retriever \<Rightarrow>
                  (case json_load mc of
                     Inl e \<Rightarrow> (False, s)
                   | Inr md \<Rightarrow>
                       (True, s\<lparr>indices := (indices s)(filename \<mapsto> retriever),
                                 metadata := (metadata s)(filename \<mapsto> md)\<rparr>)))
         | _ \<Rightarrow> (False, s))"

subsection \<open>\<^verbatim>\<open>create_index\<close>\<close>

text \<open>
  The body of the \<^verbatim>\<open>try\<close> block. \<open>now\<close> is \<^verbatim>\<open>datetime.now().isoformat()\<close> at entry.
  The existence test looks at the in-memory dictionary only. The two dictionary
  assignments come after tokenizing and indexing, so an exception of the library
  leaves the state as it was.
\<close>

definition create_index_body ::
  "'r bm25s \<Rightarrow> save_fault \<Rightarrow> string \<Rightarrow> 'm ChunkData list \<Rightarrow> string \<Rightarrow> bool \<Rightarrow>
   ('r, 'm) BM25Manager \<Rightarrow> (py_exception + create_response) \<times> ('r, 'm) BM25Manager" where
  "create_index_body lib io now chunks filename replace_existing s =
     (if \<not> replace_existing \<and> indices s filename \<noteq> None then
        (Inr \<lparr>cr_status = ''exists'', cr_filename = filename,
               cr_chunks = length chunks, cr_created_at = None\<rparr>, s)
      else
        let corpus = map cd_text chunks;
            chunk_ids' = map cd_id chunks;
            chunk_metadata' = map cd_metadata chunks
        in case tokenize lib corpus of
             Inl e \<Rightarrow> (Inl e, s)
           | Inr corpus_tokens \<Rightarrow>
               (case BM25_index lib corpus_tokens of
                  Inl e \<Rightarrow> (Inl e, s)
                | Inr retriever \<Rightarrow>
                    let s1 = s\<lparr>indices := (indices s)(filename \<mapsto> retriever)\<rparr>;
                        index_metadata =
                          \<lparr>md_filename = filename, chunk_count = length chunks,
                           chunk_ids = chunk_ids', chunk_metadata = chunk_metadata',
                           created_at = now, corpus_size = length corpus\<rparr>;
                        s2 = s1\<lparr>metadata := (metadata s1)(filename \<mapsto> index_metadata)\<rparr>;
                        s3 = save_index_to_disk io filename retriever index_metadata s2
                    in (Inr \<lparr>cr_status = ''indexed'', cr_filename = filename,
                             cr_chunks = length chunks, cr_created_at = Some now\<rparr>, s3)))"

text \<open>
  \<^verbatim>\<open>except Exception as e: raise HTTPException(status_code=500, detail=f"Failed to
  create index: {str(e)}")\<close>
\<close>

definition create_index ::
  "'r bm25s \<Rightarrow> save_fault \<Rightarrow> string \<Rightarrow> 'm ChunkData list \<Rightarrow> string \<Rightarrow> bool \<Rightarrow>
   ('r, 'm) BM25Manager \<Rightarrow> (py_exception + create_response) \<times> ('r, 'm) BM25Manager" where
  "create_index lib io now chunks filename replace_existing s =
     (case create_index_body lib io now chunks filename replace_existing s of
        (Inl e, s') \<Rightarrow> (Inl (HTTPException 500 (Wrapped ''Failed to create index: '' e)), s')
      | (Inr r, s') \<Rightarrow> (Inr r, s'))"

subsection \<open>\<^verbatim>\<open>search_index\<close>\<close>

text \<open>
  \<^verbatim>\<open>xs[i]\<close> on a Python list: a negative index counts from the end, an index out of
  range raises \<^verbatim>\<open>IndexError\<close>.
\<close>

definition py_getitem :: "'a list \<Rightarrow> int \<Rightarrow> py_exception + 'a" where
  "py_getitem xs i =
     (if 0 \<le> i \<and> i < int (length xs) then Inr (xs ! nat i)
      else if i < 0 \<and> - int (length xs) \<le> i then Inr (xs ! nat (int (length xs) + i))
      else Inl IndexError)"

text \<open>
  The loop \<^verbatim>\<open>for i, (score, idx) in enumerate(zip(scores[0], indices[0]))\<close>; \<open>i\<close> is
  the position in the zipped rows, so a dropped pair leaves a gap in the ranks. The
  test is \<^verbatim>\<open>idx < len(metadata["chunk_ids"])\<close> and nothing else.
\<close>

fun format_results ::
  "'m index_metadata \<Rightarrow> nat \<Rightarrow> (real \<times> int) list \<Rightarrow> py_exception + 'm search_hit list" where
  "format_results md i [] = Inr []"
| "format_results md i ((sc, idx) # rest) =
     (if idx < int (length (chunk_ids md)) then
        (case py_getitem (chunk_ids md) idx of
           Inl e \<Rightarrow> Inl e
         | Inr cid \<Rightarrow>
             (case py_getitem (chunk_metadata md) idx of
                Inl e \<Rightarrow> Inl e
              | Inr cm \<Rightarrow>
                  (case format_results md (i + 1) rest of
                     Inl e \<Rightarrow> Inl e
                   | Inr hits \<Rightarrow>
                       Inr (\<lparr>rank = i + 1, chunk_id = cid, score = sc, hit_metadata = cm\<rparr> # hits))))
      else format_results md (i + 1) rest)"

text \<open>
  The body of the \<^verbatim>\<open>try\<close> block. The 404 is raised inside it.
  \<^verbatim>\<open>self.metadata[filename]\<close> raises \<^verbatim>\<open>KeyError\<close> on a missing key.
\<close>

definition search_index_body ::
  "'r bm25s \<Rightarrow> string \<Rightarrow> string \<Rightarrow> int \<Rightarrow> ('r, 'm) BM25Manager \<Rightarrow>
   (py_exception + 'm search_response) \<times> ('r, 'm) BM25Manager" where
  "search_index_body lib query filename top_k s =
     (let s1 = (if indices s filename = None then snd (load_index_from_disk filename s) else s)
      in case indices s1 filename of
           None \<Rightarrow>
             (Inl (HTTPException 404 (Text (''Index not found for filename: '' @ filename))), s1)
         | Some retriever \<Rightarrow>
             (case metadata s1 filename of
                None \<Rightarrow> (Inl (KeyError filename), s1)
              | Some md \<Rightarrow>
                  (case tokenize lib [query] of
                     Inl e \<Rightarrow> (Inl e, s1)
                   | Inr query_tokens \<Rightarrow>
                       (case retrieve lib retriever query_tokens top_k of
                          Inl e \<Rightarrow> (Inl e, s1)
                        | Inr (scores, idxs) \<Rightarrow>
                            (case format_results md 0 (zip scores idxs) of
                               Inl e \<Rightarrow> (Inl e, s1)
                             | Inr hits \<Rightarrow>
                                 (Inr \<lparr>sr_status = ''success'', sr_query = query,
                                       sr_filename = filename, results = hits,
                                       total_results = length hits\<rparr>, s1))))))"

text \<open>
  \<^verbatim>\<open>except Exception as e: raise HTTPException(status_code=500, detail=f"Search
  failed: {str(e)}")\<close>. The clause has no exemption for the \<^verbatim>\<open>HTTPException\<close> raised in
  the body.
\<close>

definition search_index ::
  "'r bm25s \<Rightarrow> string \<Rightarrow> string \<Rightarrow> int \<Rightarrow> ('r, 'm) BM25Manager \<Rightarrow>
   (py_exception + 'm search_response) \<times> ('r, 'm) BM25Manager" where
  "search_index lib query filename top_k s =
     (case search_index_body lib query filename top_k s of
        (Inl e, s') \<Rightarrow> (Inl (HTTPException 500 (Wrapped ''Search failed: '' e)), s')
      | (Inr r, s') \<Rightarrow> (Inr r, s'))"

subsection \<open>\<^verbatim>\<open>delete_index\<close>\<close>

text \<open>
  \<^verbatim>\<open>os.remove\<close> can fail in the environment; which of the two calls does, if any, is
  an argument. It is only called on a path that exists.
\<close>

datatype remove_fault = NoRemoveFault | RemoveIndexFails | RemoveMetadataFails

definition delete_index_body ::
  "remove_fault \<Rightarrow> string \<Rightarrow> ('r, 'm) BM25Manager \<Rightarrow>
   (py_exception + delete_response) \<times> ('r, 'm) BM25Manager" where
  "delete_index_body io filename s =
     (let s1 = (if indices s filename \<noteq> None
                then s\<lparr>indices := (indices s)(filename := None)\<rparr> else s);
          s2 = (if metadata s1 filename \<noteq> None
                then s1\<lparr>metadata := (metadata s1)(filename := None)\<rparr> else s1);
          index_path = get_index_path s2 filename;
          metadata_path = get_metadata_path s2 filename
      in if files s2 index_path \<noteq> None \<and> io = RemoveIndexFails then (Inl OSError, s2)
         else
           let s3 = (if files s2 index_path \<noteq> None
                     then s2\<lparr>files := (files s2)(index_path := None)\<rparr> else s2)
           in if files s3 metadata_path \<noteq> None \<and> io = RemoveMetadataFails then (Inl OSError, s3)
              else
                let s4 = (if files s3 metadata_path \<noteq> None
                          then s3\<lparr>files := (files s3)(metadata_path := None)\<rparr> else s3)
                in (Inr \<lparr>dr_status = ''deleted'', dr_filename = filename\<rparr>, s4))"

text \<open>
  \<^verbatim>\<open>except Exception as e: raise HTTPException(status_code=500, detail=f"Failed to
  delete index: {str(e)}")\<close>
\<close>

definition delete_index ::
  "remove_fault \<Rightarrow> string \<Rightarrow> ('r, 'm) BM25Manager \<Rightarrow>
   (py_exception + delete_response) \<times> ('r, 'm) BM25Manager" where
  "delete_index io filename s =
     (case delete_index_body io filename s of
        (Inl e, s') \<Rightarrow> (Inl (HTTPException 500 (Wrapped ''Failed to delete index: '' e)), s')
      | (Inr r, s') \<Rightarrow> (Inr r, s'))"

subsection \<open>Serving a sequence of requests\<close>

text \<open>
  The three routes of the FastAPI application that change the manager
  (\<^verbatim>\<open>POST /index/{filename}\<close>, \<^verbatim>\<open>POST /search/{filename}\<close>,
  \<^verbatim>\<open>DELETE /index/{filename}\<close>), each with the arguments of its handler and what the
  environment does during the call. \<open>serve\<close> handles requests one after the other on
  the global manager and gives the state they leave.
\<close>

datatype 'm request =
    CreateIndex save_fault string "'m ChunkData list" string bool
  | SearchIndex string string int
  | DeleteIndex remove_fault string

definition handle :: "'r bm25s \<Rightarrow> 'm request \<Rightarrow> ('r, 'm) BM25Manager \<Rightarrow> ('r, 'm) BM25Manager" where
  "handle lib req s =
     (case req of
        CreateIndex io now chunks filename replace_existing \<Rightarrow>
          snd (create_index lib io now chunks filename replace_existing s)
      | SearchIndex query filename top_k \<Rightarrow> snd (search_index lib query filename top_k s)
      | DeleteIndex io filename \<Rightarrow> snd (delete_index io filename s))"

definition serve :: "'r bm25s \<Rightarrow> 'm request list \<Rightarrow> ('r, 'm) BM25Manager \<Rightarrow> ('r, 'm) BM25Manager" where
  "serve lib reqs s = fold (handle lib) reqs s"

subsection \<open>The scoring engine as the specification describes it\<close>

text \<open>
  Modelled from the spec: the tokenizer of section 4.1, which is part of the absent
  \<^verbatim>\<open>bm25s\<close> library. It lowercases and splits on non-alphanumeric boundaries; empty
  or whitespace-only input yields the empty sequence. First, the alphanumeric
  characters (ASCII digits and letters).
\<close>

definition is_alnum :: "char \<Rightarrow> bool" where
  "is_alnum c =
     (let n = (of_char c :: nat)
      in (48 \<le> n \<and> n \<le> 57) \<or> (65 \<le> n \<and> n \<le> 90) \<or> (97 \<le> n \<and> n \<le> 122))"

text \<open>Modelled from the spec: the lowercasing of section 4.1, on ASCII letters.\<close>

definition lowercase :: "char \<Rightarrow> char" where
  "lowercase c =
     (let n = (of_char c :: nat) in if 65 \<le> n \<and> n \<le> 90 then char_of (n + 32) else c)"

text \<open>
  Modelled from the spec: the splitting of section 4.1. \<open>cur\<close> is the term being
  read; a character that is not alphanumeric ends it.
\<close>

fun split_terms :: "string \<Rightarrow> string \<Rightarrow> string list" where
  "split_terms cur [] = (if cur = [] then [] else [cur])"
| "split_terms cur (c # cs) =
     (if is_alnum c then split_terms (cur @ [lowercase c]) cs
      else (if cur = [] then [] else [cur]) @ split_terms [] cs)"

text \<open>Modelled from the spec: \<^verbatim>\<open>tokenize(text)\<close> of section 4.1.\<close>

definition tokenize_spec :: "string \<Rightarrow> string list" where
  "tokenize_spec txt = split_terms [] txt"

text \<open>
  Modelled from the spec: the index artifact of sections 3 and 4.2, built by the absent
  \<^verbatim>\<open>bm25s\<close> library. All its statistics (document frequencies, term frequencies,
  document lengths, corpus size, average length) are functions of the tokenized
  corpus, which stands for the artifact; its corpus size is the number of documents.
\<close>

type_synonym artifact = "string list list"

text \<open>Modelled from the spec: the corpus size \<open>N\<close> of an artifact (section 4.2).\<close>

definition artifact_corpus_size :: "artifact \<Rightarrow> nat" where
  "artifact_corpus_size a = length a"

text \<open>
  Modelled from the spec: the retrieve contract of section 4.2, implemented by the
  absent \<^verbatim>\<open>bm25s\<close> library: the top \<open>k\<close> documents by descending score, ties broken
  by ascending document index; an empty corpus gives no results; \<open>k\<close> larger than the
  corpus size returns all documents. The score contract is the argument \<open>sc\<close> (the
  score of a document index for a query on an artifact), so that what is proved holds
  for the BM25 formula with any \<open>k1\<close> and \<open>b\<close>.
\<close>

definition retrieve_spec ::
  "(artifact \<Rightarrow> string list \<Rightarrow> nat \<Rightarrow> real) \<Rightarrow> artifact \<Rightarrow> string list \<Rightarrow> nat \<Rightarrow> (nat \<times> real) list" where
  "retrieve_spec sc a q k =
     (if a = [] then []
      else map (\<lambda>d. (d, sc a q d)) (take k (sort_key (\<lambda>d. - sc a q d) [0..<length a])))"

text \<open>
  Modelled from the spec: the absent \<^verbatim>\<open>bm25s\<close> library as the engine of section 4.2
  behind the three calls of the service. Building never fails; \<^verbatim>\<open>retrieve\<close> gets the
  tokens of the single query and passes \<^verbatim>\<open>top_k\<close> as the count \<open>k\<close>.
\<close>

definition spec_engine :: "(artifact \<Rightarrow> string list \<Rightarrow> nat \<Rightarrow> real) \<Rightarrow> artifact bm25s" where
  "spec_engine sc =
     \<lparr>tokenize = (\<lambda>texts. Inr (map tokenize_spec texts)),
      BM25_index = (\<lambda>corpus_tokens. Inr corpus_tokens),
      retrieve = (\<lambda>a query_tokens top_k.
         let rs = retrieve_spec sc a (concat query_tokens) (nat top_k)
         in Inr (map snd rs, map (\<lambda>r. int (fst r)) rs))\<rparr>"

subsection \<open>The alignment of the two dictionaries\<close>

text \<open>
  The names with a retriever in \<^verbatim>\<open>self.indices\<close> are the names with an entry in
  \<^verbatim>\<open>self.metadata\<close>.
\<close>

definition aligned :: "('r, 'm) BM25Manager \<Rightarrow> bool" where
  "aligned s = (dom (indices s) = dom (metadata s))"

subsection \<open>Sample data\<close>

text \<open>
  The example corpus of the specification, a scoring function for the engine (the
  number of tokens of the document that occur in the query), and manager states
  obtained by running the service: after one \<^verbatim>\<open>create_index\<close>, after a restart of the
  process (a fresh \<^verbatim>\<open>BM25Manager\<close> over the same storage directory), and after a
  \<^verbatim>\<open>create_index\<close> of a one-chunk collection during which the metadata file could
  not be opened, followed by a restart.
\<close>

definition example_score :: "artifact \<Rightarrow> string list \<Rightarrow> nat \<Rightarrow> real" where
  "example_score a q d = real (length (filter (\<lambda>t. t \<in> set q) (a ! d)))"

definition example_lib :: "artifact bm25s" where
  "example_lib = spec_engine example_score"

definition example_chunks :: "string ChunkData list" where
  "example_chunks =
     [\<lparr>cd_id = ''c1'', cd_text = ''the cat sat'', cd_metadata = ''m1''\<rparr>,
      \<lparr>cd_id = ''c2'', cd_text = ''the dog ran'', cd_metadata = ''m2''\<rparr>,
      \<lparr>cd_id = ''c3'', cd_text = ''cats and dogs'', cd_metadata = ''m3''\<rparr>]"

definition example_fresh :: "(artifact, string) BM25Manager" where
  "example_fresh = BM25Manager_init ''/tmp/bm25_indices'' Map.empty"

definition example_ready :: "(artifact, string) BM25Manager" where
  "example_ready =
     snd (create_index example_lib NoSaveFault ''t0'' example_chunks ''a'' True example_fresh)"

definition example_restarted :: "(artifact, string) BM25Manager" where
  "example_restarted = BM25Manager_init ''/tmp/bm25_indices'' (files example_ready)"

definition example_half_saved :: "(artifact, string) BM25Manager" where
  "example_half_saved =
     BM25Manager_init ''/tmp/bm25_indices''
       (files (snd (create_index example_lib OpenMetadataFails ''t1''
                 [\<lparr>cd_id = ''d1'', cd_text = ''one'', cd_metadata = ''n1''\<rparr>] ''a'' True
                 example_ready)))"

text \<open>
  A library whose \<^verbatim>\<open>retrieve\<close> answers every query with the single index \<open>-1\<close>
  (an index counted from the end of the corpus), otherwise as \<open>example_lib\<close>.
\<close>

definition example_reversed_lib :: "artifact bm25s" where
  "example_reversed_lib =
     example_lib\<lparr>retrieve := (\<lambda>a query_tokens top_k. Inr ([1], [- 1]))\<rparr>"

section \<open>Properties\<close>

subsection \<open>Auxiliary facts\<close>

lemmas example_defs =
  example_ready_def example_restarted_def example_half_saved_def example_fresh_def
  example_lib_def example_score_def example_chunks_def BM25Manager_init_def spec_engine_def
  tokenize_spec_def is_alnum_def lowercase_def

lemmas service_defs =
  create_index_def create_index_body_def search_index_def search_index_body_def
  delete_index_def delete_index_body_def load_index_from_disk_def save_index_to_disk_def
  pickle_load_def json_load_def py_getitem_def

lemmas path_defs =
  get_index_path_def get_metadata_path_def path_join_def safe_filename_def replace_char_def

lemma index_path_upd [simp]:
  "get_index_path (s\<lparr>indices := i\<rparr>) f = get_index_path s f"
  "get_index_path (s\<lparr>metadata := m\<rparr>) f = get_index_path s f"
  "get_index_path (s\<lparr>files := fs\<rparr>) f = get_index_path s f"
  by (simp_all add: get_index_path_def)

lemma metadata_path_upd [simp]:
  "get_metadata_path (s\<lparr>indices := i\<rparr>) f = get_metadata_path s f"
  "get_metadata_path (s\<lparr>metadata := m\<rparr>) f = get_metadata_path s f"
  "get_metadata_path (s\<lparr>files := fs\<rparr>) f = get_metadata_path s f"
  by (simp_all add: get_metadata_path_def)

lemma save_memory [simp]:
  "indices (save_index_to_disk io f r md s) = indices s"
  "metadata (save_index_to_disk io f r md s) = metadata s"
  "storage_path (save_index_to_disk io f r md s) = storage_path s"
  by (cases io; simp add: save_index_to_disk_def Let_def)+

text \<open>The sanitized name contains no path separator, so the joined path keeps the directory.\<close>

lemma safe_filename_no_slash: "CHR ''/'' \<notin> set (safe_filename f)"
  by (auto simp: safe_filename_def replace_char_def)

lemma hd_safe_filename_ext:
  "e \<noteq> [] \<Longrightarrow> hd e \<noteq> CHR ''/'' \<Longrightarrow> hd (safe_filename f @ e) \<noteq> CHR ''/''"
  using safe_filename_no_slash[of f] by (cases "safe_filename f") auto

lemma path_join_safe_filename:
  "e \<noteq> [] \<Longrightarrow> hd e \<noteq> CHR ''/'' \<Longrightarrow>
   path_join a (safe_filename f @ e) =
     (if a = [] \<or> last a = CHR ''/'' then a else a @ ''/'') @ safe_filename f @ e"
  using hd_safe_filename_ext[of e f] by (simp add: path_join_def)

lemma index_path_eq_iff:
  "get_index_path s f = get_index_path s g \<longleftrightarrow> safe_filename f = safe_filename g"
  by (simp add: get_index_path_def path_join_safe_filename)

lemma metadata_path_eq_iff:
  "get_metadata_path s f = get_metadata_path s g \<longleftrightarrow> safe_filename f = safe_filename g"
  by (simp add: get_metadata_path_def path_join_safe_filename)

lemma index_path_neq_metadata_path: "get_index_path s f \<noteq> get_metadata_path s g"
proof
  assume "get_index_path s f = get_metadata_path s g"
  then have "last (get_index_path s f) = last (get_metadata_path s g)" by simp
  then show False
    by (simp add: get_index_path_def get_metadata_path_def path_join_safe_filename)
qed

lemma safe_filename_id:
  "CHR ''/'' \<notin> set f \<Longrightarrow> CHR 0x5C \<notin> set f \<Longrightarrow> safe_filename f = f"
  by (induction f) (auto simp: safe_filename_def replace_char_def)

text \<open>Loading: what a missing file and what two loadable files give.\<close>

lemma load_absent:
  "files s (get_index_path s f) = None \<or> files s (get_metadata_path s f) = None \<Longrightarrow>
   load_index_from_disk f s = (False, s)"
  by (auto simp: load_index_from_disk_def split: option.splits)

lemma load_success_iff:
  "fst (load_index_from_disk f s) \<longleftrightarrow>
     (\<exists>r md. files s (get_index_path s f) = Some (Pickle r) \<and>
             files s (get_metadata_path s f) = Some (Json md))"
  by (auto simp: load_index_from_disk_def pickle_load_def json_load_def
           split: option.splits file_content.splits)

lemma load_success:
  "files s (get_index_path s f) = Some (Pickle r) \<Longrightarrow>
   files s (get_metadata_path s f) = Some (Json md) \<Longrightarrow>
   load_index_from_disk f s =
     (True, s\<lparr>indices := (indices s)(f \<mapsto> r), metadata := (metadata s)(f \<mapsto> md)\<rparr>)"
  by (simp add: load_index_from_disk_def pickle_load_def json_load_def)

lemma load_failure_unchanged:
  "\<not> fst (load_index_from_disk f s) \<Longrightarrow> snd (load_index_from_disk f s) = s"
  by (auto simp: load_index_from_disk_def pickle_load_def json_load_def
           split: option.splits file_content.splits)

text \<open>Creating: the state after a build that succeeds.\<close>

lemma create_builds:
  assumes "tokenize lib (map cd_text chunks) = Inr toks" "BM25_index lib toks = Inr r"
    "rep \<or> indices s f = None"
  shows "create_index lib io now chunks f rep s =
     (Inr \<lparr>cr_status = ''indexed'', cr_filename = f, cr_chunks = length chunks,
           cr_created_at = Some now\<rparr>,
      save_index_to_disk io f r
        \<lparr>md_filename = f, chunk_count = length chunks, chunk_ids = map cd_id chunks,
         chunk_metadata = map cd_metadata chunks, created_at = now,
         corpus_size = length chunks\<rparr>
        (s\<lparr>indices := (indices s)(f \<mapsto> r),
           metadata := (metadata s)(f \<mapsto>
             \<lparr>md_filename = f, chunk_count = length chunks, chunk_ids = map cd_id chunks,
              chunk_metadata = map cd_metadata chunks, created_at = now,
              corpus_size = length chunks\<rparr>)\<rparr>))"
  using assms by (auto simp: create_index_def create_index_body_def Let_def)

text \<open>Searching a collection that is in memory: the disk is not consulted.\<close>

lemma search_in_memory:
  "indices s f = Some r \<Longrightarrow> metadata s f = Some md \<Longrightarrow>
   fst (search_index lib q f k s) =
     (case tokenize lib [q] of
        Inl e \<Rightarrow> Inl (HTTPException 500 (Wrapped ''Search failed: '' e))
      | Inr qt \<Rightarrow>
          (case retrieve lib r qt k of
             Inl e \<Rightarrow> Inl (HTTPException 500 (Wrapped ''Search failed: '' e))
           | Inr (scs, idxs) \<Rightarrow>
               (case format_results md 0 (zip scs idxs) of
                  Inl e \<Rightarrow> Inl (HTTPException 500 (Wrapped ''Search failed: '' e))
                | Inr hits \<Rightarrow>
                    Inr \<lparr>sr_status = ''success'', sr_query = q, sr_filename = f,
                         results = hits, total_results = length hits\<rparr>)))"
  by (simp add: search_index_def search_index_body_def split: sum.splits prod.splits)

lemma search_in_memory_state:
  "indices s f = Some r \<Longrightarrow> snd (search_index lib q f k s) = s"
  by (simp add: search_index_def search_index_body_def
           split: sum.splits prod.splits option.splits)

text \<open>Deleting: a collection with nothing in memory and nothing on disk, and the state
  a delete that returns leaves.\<close>

lemma delete_nonexistent:
  "indices s f = None \<Longrightarrow> metadata s f = None \<Longrightarrow>
   files s (get_index_path s f) = None \<Longrightarrow> files s (get_metadata_path s f) = None \<Longrightarrow>
   delete_index io f s = (Inr \<lparr>dr_status = ''deleted'', dr_filename = f\<rparr>, s)"
  by (simp add: delete_index_def delete_index_body_def)

lemma delete_returned_post:
  assumes "fst (delete_index io f s) = Inr r"
  shows "indices (snd (delete_index io f s)) f = None"
    "metadata (snd (delete_index io f s)) f = None"
    "files (snd (delete_index io f s)) (get_index_path (snd (delete_index io f s)) f) = None"
    "files (snd (delete_index io f s)) (get_metadata_path (snd (delete_index io f s)) f) = None"
  using assms
  by (auto simp: delete_index_def delete_index_body_def Let_def split: if_splits)

lemma delete_no_fault:
  "fst (delete_index NoRemoveFault f s) = Inr \<lparr>dr_status = ''deleted'', dr_filename = f\<rparr>"
  by (simp add: delete_index_def delete_index_body_def Let_def)

text \<open>Each operation keeps the two dictionaries aligned, whatever it returns.\<close>

lemma aligned_load: "aligned s \<Longrightarrow> aligned (snd (load_index_from_disk f s))"
  by (auto simp: load_index_from_disk_def pickle_load_def json_load_def aligned_def
           split: option.splits file_content.splits)

lemma aligned_create: "aligned s \<Longrightarrow> aligned (snd (create_index lib io now chunks f rep s))"
  by (auto simp: create_index_def create_index_body_def Let_def aligned_def
           split: sum.splits prod.splits)

lemma aligned_search: "aligned s \<Longrightarrow> aligned (snd (search_index lib q f k s))"
  using aligned_load[of s f]
  by (auto simp: search_index_def search_index_body_def Let_def
           split: sum.splits prod.splits option.splits)

lemma aligned_delete: "aligned s \<Longrightarrow> aligned (snd (delete_index io f s))"
  by (auto simp: delete_index_def delete_index_body_def Let_def aligned_def
           split: sum.splits prod.splits)

lemma aligned_handle: "aligned s \<Longrightarrow> aligned (handle lib req s)"
  by (cases req) (simp_all add: handle_def aligned_create aligned_search aligned_delete)

lemma aligned_serve: "aligned s \<Longrightarrow> aligned (serve lib reqs s)"
  unfolding serve_def by (induction reqs arbitrary: s) (simp_all add: aligned_handle)

text \<open>The sample states, evaluated.\<close>

lemma example_paths:
  "get_index_path example_fresh ''a'' = ''/tmp/bm25_indices/a.bm25''"
  "get_metadata_path example_fresh ''a'' = ''/tmp/bm25_indices/a.meta''"
  "get_index_path example_ready ''a'' = ''/tmp/bm25_indices/a.bm25''"
  "get_metadata_path example_ready ''a'' = ''/tmp/bm25_indices/a.meta''"
  "get_index_path example_restarted ''a'' = ''/tmp/bm25_indices/a.bm25''"
  "get_metadata_path example_restarted ''a'' = ''/tmp/bm25_indices/a.meta''"
  "get_index_path example_half_saved ''a'' = ''/tmp/bm25_indices/a.bm25''"
  "get_metadata_path example_half_saved ''a'' = ''/tmp/bm25_indices/a.meta''"
  by (simp_all add: example_defs service_defs path_defs Let_def)

lemma example_ready_memory:
  "indices example_ready ''a'' =
     Some [[''the'', ''cat'', ''sat''], [''the'', ''dog'', ''ran''], [''cats'', ''and'', ''dogs'']]"
  "metadata example_ready ''a'' =
     Some \<lparr>md_filename = ''a'', chunk_count = 3, chunk_ids = [''c1'', ''c2'', ''c3''],
           chunk_metadata = [''m1'', ''m2'', ''m3''], created_at = ''t0'', corpus_size = 3\<rparr>"
  by (simp_all add: example_defs service_defs Let_def)

lemma example_restarted_state:
  "indices example_restarted ''a'' = None"
  "files example_restarted ''/tmp/bm25_indices/a.bm25'' =
     Some (Pickle [[''the'', ''cat'', ''sat''], [''the'', ''dog'', ''ran''], [''cats'', ''and'', ''dogs'']])"
  "files example_restarted ''/tmp/bm25_indices/a.meta'' =
     Some (Json \<lparr>md_filename = ''a'', chunk_count = 3, chunk_ids = [''c1'', ''c2'', ''c3''],
           chunk_metadata = [''m1'', ''m2'', ''m3''], created_at = ''t0'', corpus_size = 3\<rparr>)"
  by (simp_all add: example_defs service_defs path_defs Let_def)

lemma example_half_saved_state:
  "indices example_half_saved ''a'' = None"
  "files example_half_saved ''/tmp/bm25_indices/a.bm25'' = Some (Pickle [[''one'']])"
  "files example_half_saved ''/tmp/bm25_indices/a.meta'' =
     Some (Json \<lparr>md_filename = ''a'', chunk_count = 3, chunk_ids = [''c1'', ''c2'', ''c3''],
           chunk_metadata = [''m1'', ''m2'', ''m3''], created_at = ''t0'', corpus_size = 3\<rparr>)"
  by (simp_all add: example_defs service_defs path_defs Let_def)

subsection \<open>Searching a collection that does not exist\<close>

text \<open>
  C1. A collection that is not in memory and lacks the index file or the metadata file
  on disk should make \<^verbatim>\<open>search_index\<close> surface a not-found failure (status 404). The
  404 is raised inside the \<^verbatim>\<open>try\<close> block, is caught by its \<^verbatim>\<open>except Exception\<close>
  clause and is raised again as a status 500 whose detail wraps it: what the caller
  gets is the generic internal failure. The state is left as it was.
\<close>

theorem search_missing_collection_gives_500:
  assumes "indices s f = None"
    and "files s (get_index_path s f) = None \<or> files s (get_metadata_path s f) = None"
  shows "search_index lib q f k s =
     (Inl (HTTPException 500 (Wrapped ''Search failed: ''
        (HTTPException 404 (Text (''Index not found for filename: '' @ f))))), s)"
  using assms by (simp add: search_index_def search_index_body_def load_absent)

theorem search_missing_collection_witness:
  "indices example_fresh ''nope'' = None
   \<and> files example_fresh (get_index_path example_fresh ''nope'') = None
   \<and> fst (search_index example_lib ''cat'' ''nope'' 10 example_fresh) =
       Inl (HTTPException 500 (Wrapped ''Search failed: ''
         (HTTPException 404 (Text ''Index not found for filename: nope''))))
   \<and> status_code (projl (fst (search_index example_lib ''cat'' ''nope'' 10 example_fresh))) \<noteq> 404"
proof -
  have h1: "indices example_fresh ''nope'' = None"
    by (simp add: example_fresh_def BM25Manager_init_def)
  have h2: "files example_fresh (get_index_path example_fresh ''nope'') = None"
    by (simp add: example_fresh_def BM25Manager_init_def)
  show ?thesis
    using h1 h2
      search_missing_collection_gives_500 [OF h1 disjI1 [OF h2], of example_lib "''cat''" 10]
    by simp
qed

subsection \<open>Creating over an existing collection without replacing\<close>

text \<open>
  C2 (amended). For every collection that is in the in-memory dictionary,
  \<^verbatim>\<open>create_index\<close> with \<^verbatim>\<open>replace_existing = False\<close> returns the status
  \<^verbatim>\<open>"exists"\<close> and leaves the whole state (both dictionaries and every file)
  unchanged, so every later search answers as before. The test reads the in-memory
  dictionary only: a collection that exists only on disk is not covered.
\<close>

theorem create_without_replace_keeps_loaded_collection:
  assumes "indices s f = Some r"
  shows "create_index lib io now chunks f False s =
           (Inr \<lparr>cr_status = ''exists'', cr_filename = f, cr_chunks = length chunks,
                 cr_created_at = None\<rparr>, s)
       \<and> search_index lib q f k (snd (create_index lib io now chunks f False s)) =
           search_index lib q f k s"
  using assms by (simp add: create_index_def create_index_body_def)

theorem create_without_replace_witness:
  "indices example_ready ''a'' =
     Some [[''the'', ''cat'', ''sat''], [''the'', ''dog'', ''ran''], [''cats'', ''and'', ''dogs'']]
   \<and> fst (create_index example_lib NoSaveFault ''t1'' [] ''a'' False example_ready) =
       Inr \<lparr>cr_status = ''exists'', cr_filename = ''a'', cr_chunks = 0, cr_created_at = None\<rparr>
   \<and> snd (create_index example_lib NoSaveFault ''t1'' [] ''a'' False example_ready) = example_ready"
  using example_ready_memory(1)
    create_without_replace_keeps_loaded_collection [OF example_ready_memory(1),
      of example_lib NoSaveFault "''t1''" "[]" "''cat''" 1]
  by simp

text \<open>
  After a restart the collection \<open>a\<close> exists on disk only. Creating it again with an
  empty chunk list and \<^verbatim>\<open>replace_existing = False\<close> answers \<^verbatim>\<open>"indexed"\<close> and
  overwrites the metadata file; the search that found \<open>c1\<close> before finds nothing after.
\<close>

theorem create_without_replace_counterexample:
  "files example_restarted (get_index_path example_restarted ''a'') \<noteq> None
   \<and> files example_restarted (get_metadata_path example_restarted ''a'') \<noteq> None
   \<and> fst (create_index example_lib NoSaveFault ''t1'' [] ''a'' False example_restarted) =
       Inr \<lparr>cr_status = ''indexed'', cr_filename = ''a'', cr_chunks = 0,
             cr_created_at = Some ''t1''\<rparr>
   \<and> files (snd (create_index example_lib NoSaveFault ''t1'' [] ''a'' False example_restarted))
         (get_metadata_path example_restarted ''a'') \<noteq>
       files example_restarted (get_metadata_path example_restarted ''a'')
   \<and> fst (search_index example_lib ''cat'' ''a'' 1 example_restarted) =
       Inr \<lparr>sr_status = ''success'', sr_query = ''cat'', sr_filename = ''a'',
             results = [\<lparr>rank = 1, chunk_id = ''c1'', score = 1, hit_metadata = ''m1''\<rparr>],
             total_results = 1\<rparr>
   \<and> fst (search_index example_lib ''cat'' ''a'' 1
         (snd (create_index example_lib NoSaveFault ''t1'' [] ''a'' False example_restarted))) =
       Inr \<lparr>sr_status = ''success'', sr_query = ''cat'', sr_filename = ''a'',
             results = [], total_results = 0\<rparr>"
  by (simp add: example_defs service_defs path_defs retrieve_spec_def Let_def)

subsection \<open>Loading from disk\<close>

text \<open>
  C5 (amended). \<^verbatim>\<open>_load_index_from_disk\<close> reports success exactly when the index
  file and the metadata file are both present and each can be read back; it then
  installs the pair as it is, comparing no corpus size or chunk count. When one of the
  two files is missing it reports failure and leaves the state unchanged.
\<close>

theorem load_needs_both_files:
  "(fst (load_index_from_disk f s) \<longleftrightarrow>
      (\<exists>r md. files s (get_index_path s f) = Some (Pickle r) \<and>
              files s (get_metadata_path s f) = Some (Json md)))
   \<and> (files s (get_index_path s f) = Some (Pickle r) \<and>
      files s (get_metadata_path s f) = Some (Json md) \<longrightarrow>
        load_index_from_disk f s =
          (True, s\<lparr>indices := (indices s)(f \<mapsto> r), metadata := (metadata s)(f \<mapsto> md)\<rparr>))
   \<and> (files s (get_index_path s f) = None \<or> files s (get_metadata_path s f) = None \<longrightarrow>
        load_index_from_disk f s = (False, s))"
  by (intro conjI impI) (simp_all add: load_success_iff load_success load_absent)

theorem load_needs_both_files_witness:
  "files example_restarted (get_index_path example_restarted ''a'') =
     Some (Pickle [[''the'', ''cat'', ''sat''], [''the'', ''dog'', ''ran''], [''cats'', ''and'', ''dogs'']])
   \<and> files example_restarted (get_metadata_path example_restarted ''a'') =
     Some (Json \<lparr>md_filename = ''a'', chunk_count = 3, chunk_ids = [''c1'', ''c2'', ''c3''],
           chunk_metadata = [''m1'', ''m2'', ''m3''], created_at = ''t0'', corpus_size = 3\<rparr>)
   \<and> fst (load_index_from_disk ''a'' example_restarted)
   \<and> indices (snd (load_index_from_disk ''a'' example_restarted)) ''a'' =
     Some [[''the'', ''cat'', ''sat''], [''the'', ''dog'', ''ran''], [''cats'', ''and'', ''dogs'']]
   \<and> files example_restarted (get_metadata_path example_restarted ''b'') = None
   \<and> load_index_from_disk ''b'' example_restarted = (False, example_restarted)"
proof -
  have h1: "files example_restarted (get_index_path example_restarted ''a'') =
     Some (Pickle [[''the'', ''cat'', ''sat''], [''the'', ''dog'', ''ran''], [''cats'', ''and'', ''dogs'']])"
    by (simp add: example_paths example_restarted_state)
  have h2: "files example_restarted (get_metadata_path example_restarted ''a'') =
     Some (Json \<lparr>md_filename = ''a'', chunk_count = 3, chunk_ids = [''c1'', ''c2'', ''c3''],
           chunk_metadata = [''m1'', ''m2'', ''m3''], created_at = ''t0'', corpus_size = 3\<rparr>)"
    by (simp add: example_paths example_restarted_state)
  have h3: "files example_restarted (get_metadata_path example_restarted ''b'') = None"
    by (simp add: example_defs service_defs path_defs Let_def)
  show ?thesis
    using h1 h2 h3
      load_needs_both_files [where f = "''a''" and s = example_restarted
        and r = "[[''the'', ''cat'', ''sat''], [''the'', ''dog'', ''ran''], [''cats'', ''and'', ''dogs'']]"
        and md = "\<lparr>md_filename = ''a'', chunk_count = 3, chunk_ids = [''c1'', ''c2'', ''c3''],
           chunk_metadata = [''m1'', ''m2'', ''m3''], created_at = ''t0'', corpus_size = 3\<rparr>"]
      load_needs_both_files [where f = "''b''" and s = example_restarted]
    by simp
qed

text \<open>
  The storage directory of \<open>example_half_saved\<close> holds an artifact of one document
  next to the metadata of three chunks; the load reports success.
\<close>

theorem load_inconsistent_counterexample:
  "files example_half_saved (get_index_path example_half_saved ''a'') = Some (Pickle [[''one'']])
   \<and> files example_half_saved (get_metadata_path example_half_saved ''a'') =
       Some (Json \<lparr>md_filename = ''a'', chunk_count = 3, chunk_ids = [''c1'', ''c2'', ''c3''],
             chunk_metadata = [''m1'', ''m2'', ''m3''], created_at = ''t0'', corpus_size = 3\<rparr>)
   \<and> artifact_corpus_size [[''one'']] \<noteq> 3
   \<and> fst (load_index_from_disk ''a'' example_half_saved)"
  by (simp add: example_paths example_half_saved_state load_success_iff artifact_corpus_size_def)

subsection \<open>A failed save does not fail the create\<close>

text \<open>
  C6. When tokenizing and indexing succeed (and the call is not answered
  \<^verbatim>\<open>"exists"\<close>), \<^verbatim>\<open>create_index\<close> returns the status \<^verbatim>\<open>"indexed"\<close> whichever
  step of the save fails; the new retriever and metadata are in the two dictionaries,
  and every search on the collection answers as it does after a create whose save
  succeeded.
\<close>

theorem create_survives_save_failure:
  assumes "tokenize lib (map cd_text chunks) = Inr toks" "BM25_index lib toks = Inr r"
    "rep \<or> indices s f = None"
  shows "fst (create_index lib io now chunks f rep s) =
           Inr \<lparr>cr_status = ''indexed'', cr_filename = f, cr_chunks = length chunks,
                 cr_created_at = Some now\<rparr>
       \<and> indices (snd (create_index lib io now chunks f rep s)) f = Some r
       \<and> metadata (snd (create_index lib io now chunks f rep s)) f =
           Some \<lparr>md_filename = f, chunk_count = length chunks, chunk_ids = map cd_id chunks,
              chunk_metadata = map cd_metadata chunks, created_at = now,
              corpus_size = length chunks\<rparr>
       \<and> fst (search_index lib q f k (snd (create_index lib io now chunks f rep s))) =
           fst (search_index lib q f k (snd (create_index lib NoSaveFault now chunks f rep s)))"
  by (simp add: create_builds [OF assms] search_in_memory)

theorem create_survives_save_failure_witness:
  "tokenize example_lib (map cd_text example_chunks) =
     Inr [[''the'', ''cat'', ''sat''], [''the'', ''dog'', ''ran''], [''cats'', ''and'', ''dogs'']]
   \<and> BM25_index example_lib
       [[''the'', ''cat'', ''sat''], [''the'', ''dog'', ''ran''], [''cats'', ''and'', ''dogs'']] =
     Inr [[''the'', ''cat'', ''sat''], [''the'', ''dog'', ''ran''], [''cats'', ''and'', ''dogs'']]
   \<and> fst (create_index example_lib DumpIndexFails ''t0'' example_chunks ''a'' True example_fresh) =
       Inr \<lparr>cr_status = ''indexed'', cr_filename = ''a'', cr_chunks = 3,
             cr_created_at = Some ''t0''\<rparr>
   \<and> fst (search_index example_lib ''cat'' ''a'' 1
        (snd (create_index example_lib DumpIndexFails ''t0'' example_chunks ''a'' True example_fresh))) =
       Inr \<lparr>sr_status = ''success'', sr_query = ''cat'', sr_filename = ''a'',
             results = [\<lparr>rank = 1, chunk_id = ''c1'', score = 1, hit_metadata = ''m1''\<rparr>],
             total_results = 1\<rparr>"
proof -
  have h1: "tokenize example_lib (map cd_text example_chunks) =
     Inr [[''the'', ''cat'', ''sat''], [''the'', ''dog'', ''ran''], [''cats'', ''and'', ''dogs'']]"
    by (simp add: example_defs)
  have h2: "BM25_index example_lib
       [[''the'', ''cat'', ''sat''], [''the'', ''dog'', ''ran''], [''cats'', ''and'', ''dogs'']] =
     Inr [[''the'', ''cat'', ''sat''], [''the'', ''dog'', ''ran''], [''cats'', ''and'', ''dogs'']]"
    by (simp add: example_defs)
  have h3: "True \<or> indices example_fresh ''a'' = None" by simp
  have ready: "fst (search_index example_lib ''cat'' ''a'' 1
        (snd (create_index example_lib NoSaveFault ''t0'' example_chunks ''a'' True example_fresh))) =
       Inr \<lparr>sr_status = ''success'', sr_query = ''cat'', sr_filename = ''a'',
             results = [\<lparr>rank = 1, chunk_id = ''c1'', score = 1, hit_metadata = ''m1''\<rparr>],
             total_results = 1\<rparr>"
    by (simp add: example_defs service_defs retrieve_spec_def Let_def)
  show ?thesis
    using h1 h2 ready
      create_survives_save_failure [OF h1 h2 h3, where io = DumpIndexFails and now = "''t0''"
        and q = "''cat''" and k = 1]
    by (simp add: example_chunks_def)
qed

subsection \<open>Deleting\<close>

text \<open>
  C9. Deleting a collection that has no entry in either dictionary and no file on
  disk returns the status \<^verbatim>\<open>"deleted"\<close> and changes nothing, whatever the
  environment; a delete returns \<^verbatim>\<open>"deleted"\<close> whenever no \<^verbatim>\<open>os.remove\<close> fails;
  and after any delete that returned, a second delete returns \<^verbatim>\<open>"deleted"\<close> and
  leaves the state of the first.
\<close>

theorem delete_idempotent:
  "(indices s f = None \<and> metadata s f = None \<and> files s (get_index_path s f) = None \<and>
    files s (get_metadata_path s f) = None \<longrightarrow>
      delete_index io f s = (Inr \<lparr>dr_status = ''deleted'', dr_filename = f\<rparr>, s))
   \<and> fst (delete_index NoRemoveFault f s) = Inr \<lparr>dr_status = ''deleted'', dr_filename = f\<rparr>
   \<and> (fst (delete_index io f s) = Inr r \<longrightarrow>
        delete_index io' f (snd (delete_index io f s)) =
          (Inr \<lparr>dr_status = ''deleted'', dr_filename = f\<rparr>, snd (delete_index io f s)))"
  by (intro conjI impI)
     (simp_all add: delete_nonexistent delete_no_fault delete_returned_post)

theorem delete_idempotent_witness:
  "indices example_fresh ''nope'' = None \<and> metadata example_fresh ''nope'' = None
   \<and> files example_fresh (get_index_path example_fresh ''nope'') = None
   \<and> files example_fresh (get_metadata_path example_fresh ''nope'') = None
   \<and> delete_index RemoveIndexFails ''nope'' example_fresh =
       (Inr \<lparr>dr_status = ''deleted'', dr_filename = ''nope''\<rparr>, example_fresh)
   \<and> fst (delete_index NoRemoveFault ''a'' example_ready) =
       Inr \<lparr>dr_status = ''deleted'', dr_filename = ''a''\<rparr>
   \<and> delete_index RemoveMetadataFails ''a'' (snd (delete_index NoRemoveFault ''a'' example_ready)) =
       (Inr \<lparr>dr_status = ''deleted'', dr_filename = ''a''\<rparr>,
        snd (delete_index NoRemoveFault ''a'' example_ready))
   \<and> indices example_ready ''a'' \<noteq> None
   \<and> indices (snd (delete_index NoRemoveFault ''a'' example_ready)) ''a'' = None"
proof -
  have h: "indices example_fresh ''nope'' = None" "metadata example_fresh ''nope'' = None"
    "files example_fresh (get_index_path example_fresh ''nope'') = None"
    "files example_fresh (get_metadata_path example_fresh ''nope'') = None"
    by (simp_all add: example_fresh_def BM25Manager_init_def)
  have g: "indices (snd (delete_index NoRemoveFault ''a'' example_ready)) ''a'' = None"
    by (simp add: delete_index_def delete_index_body_def Let_def)
  show ?thesis
    using h g
      delete_idempotent [where s = example_fresh and f = "''nope''" and io = RemoveIndexFails]
      delete_idempotent [where s = example_ready and f = "''a''" and io = NoRemoveFault
        and r = "\<lparr>dr_status = ''deleted'', dr_filename = ''a''\<rparr>"
        and io' = RemoveMetadataFails]
    by (simp add: example_ready_memory)
qed

subsection \<open>The two dictionaries stay aligned\<close>

text \<open>
  C10. A fresh manager has both dictionaries empty, and after every sequence of create,
  search and delete requests, whatever each of them returned or raised and whatever
  failed on disk, the names with an in-memory retriever are exactly the names with
  in-memory metadata.
\<close>

theorem dictionaries_stay_aligned:
  "dom (indices (serve lib reqs (BM25Manager_init sp fs))) =
   dom (metadata (serve lib reqs (BM25Manager_init sp fs)))"
proof -
  have "aligned (BM25Manager_init sp fs)"
    by (simp add: aligned_def BM25Manager_init_def)
  then have "aligned (serve lib reqs (BM25Manager_init sp fs))"
    by (rule aligned_serve)
  then show ?thesis by (simp add: aligned_def)
qed

subsection \<open>Storage keys of distinct names\<close>

text \<open>
  C7 (amended). Two collection names have the same index path, and the same metadata
  path, exactly when they are equal after every \<^verbatim>\<open>/\<close> and \<^verbatim>\<open>\\<close> is replaced by
  \<^verbatim>\<open>_\<close>; an index path is never a metadata path. So the derived storage keys are
  distinct for every pair of distinct names that contain neither \<^verbatim>\<open>/\<close> nor
  \<^verbatim>\<open>\\<close>.
\<close>

theorem storage_keys_distinct_without_separators:
  "(get_index_path s f = get_index_path s g \<longleftrightarrow> safe_filename f = safe_filename g)
   \<and> (get_metadata_path s f = get_metadata_path s g \<longleftrightarrow> safe_filename f = safe_filename g)
   \<and> get_index_path s f \<noteq> get_metadata_path s g
   \<and> (CHR ''/'' \<notin> set f \<and> CHR 0x5C \<notin> set f \<and> CHR ''/'' \<notin> set g \<and> CHR 0x5C \<notin> set g \<and> f \<noteq> g \<longrightarrow>
        get_index_path s f \<noteq> get_index_path s g \<and>
        get_metadata_path s f \<noteq> get_metadata_path s g)"
  by (intro conjI impI)
     (simp_all add: index_path_eq_iff metadata_path_eq_iff index_path_neq_metadata_path
        safe_filename_id)

theorem storage_keys_distinct_witness:
  "CHR ''/'' \<notin> set ''report_v1'' \<and> CHR 0x5C \<notin> set ''report_v1''
   \<and> CHR ''/'' \<notin> set ''report_v2'' \<and> CHR 0x5C \<notin> set ''report_v2''
   \<and> ''report_v1'' \<noteq> ''report_v2''
   \<and> get_index_path example_fresh ''report_v1'' \<noteq> get_index_path example_fresh ''report_v2''
   \<and> get_metadata_path example_fresh ''report_v1'' \<noteq>
       get_metadata_path example_fresh ''report_v2''"
  using storage_keys_distinct_without_separators
    [where s = example_fresh and f = "''report_v1''" and g = "''report_v2''"]
  by auto

text \<open>The names \<^verbatim>\<open>a/b\<close> and \<^verbatim>\<open>a_b\<close> are distinct and share both storage files.\<close>

theorem storage_keys_counterexample:
  "''a/b'' \<noteq> ''a_b''
   \<and> get_index_path example_fresh ''a/b'' = get_index_path example_fresh ''a_b''
   \<and> get_metadata_path example_fresh ''a/b'' = get_metadata_path example_fresh ''a_b''
   \<and> get_index_path example_fresh ''a/b'' = ''/tmp/bm25_indices/a_b.bm25''"
  by (simp add: example_fresh_def BM25Manager_init_def path_defs)

subsection \<open>Indices outside the corpus\<close>

text \<open>What the loop does with an index at or beyond the number of chunk ids: it drops it.\<close>

lemma format_results_drops_large:
  "int (length (chunk_ids md)) \<le> idx \<Longrightarrow>
   format_results md i ((sc, idx) # rest) = format_results md (i + 1) rest"
  by simp

text \<open>
  C3. An index returned by the engine outside \<open>0 \<le> idx < corpus_size\<close> should be
  dropped. The loop tests \<^verbatim>\<open>idx < len(metadata["chunk_ids"])\<close> only, and Python's
  list indexing counts a negative index from the end: when the engine returns the
  index \<open>-1\<close> for a collection that has chunks, the search surfaces the last chunk
  of the collection, with rank 1.
\<close>

theorem negative_index_is_surfaced:
  assumes "indices s f = Some r" "metadata s f = Some md"
    and "tokenize lib [q] = Inr qt" "retrieve lib r qt k = Inr ([sc], [- 1])"
    and "chunk_ids md \<noteq> []" "length (chunk_metadata md) = length (chunk_ids md)"
  shows "fst (search_index lib q f k s) =
     Inr \<lparr>sr_status = ''success'', sr_query = q, sr_filename = f,
          results = [\<lparr>rank = 1, chunk_id = last (chunk_ids md), score = sc,
                      hit_metadata = last (chunk_metadata md)\<rparr>],
          total_results = 1\<rparr>"
proof -
  have n: "0 < length (chunk_ids md)" "chunk_metadata md \<noteq> []"
    using assms(5,6) by auto
  have "nat (int (length (chunk_ids md)) - 1) = length (chunk_ids md) - 1"
    using n by linarith
  then have "format_results md 0 (zip [sc] [- 1]) =
     Inr [\<lparr>rank = 1, chunk_id = last (chunk_ids md), score = sc,
           hit_metadata = last (chunk_metadata md)\<rparr>]"
    using n assms(5,6) by (simp add: py_getitem_def last_conv_nth Suc_le_eq)
  then show ?thesis
    using assms(1-4) by (simp add: search_in_memory)
qed

theorem negative_index_witness:
  "indices example_ready ''a'' =
     Some [[''the'', ''cat'', ''sat''], [''the'', ''dog'', ''ran''], [''cats'', ''and'', ''dogs'']]
   \<and> tokenize example_reversed_lib [''cat''] = Inr [[''cat'']]
   \<and> retrieve example_reversed_lib
       [[''the'', ''cat'', ''sat''], [''the'', ''dog'', ''ran''], [''cats'', ''and'', ''dogs'']]
       [[''cat'']] 1 = Inr ([1], [- 1])
   \<and> fst (search_index example_reversed_lib ''cat'' ''a'' 1 example_ready) =
       Inr \<lparr>sr_status = ''success'', sr_query = ''cat'', sr_filename = ''a'',
             results = [\<lparr>rank = 1, chunk_id = ''c3'', score = 1, hit_metadata = ''m3''\<rparr>],
             total_results = 1\<rparr>"
proof -
  have h3: "tokenize example_reversed_lib [''cat''] = Inr [[''cat'']]"
    by (simp add: example_reversed_lib_def example_defs)
  have h4: "retrieve example_reversed_lib
       [[''the'', ''cat'', ''sat''], [''the'', ''dog'', ''ran''], [''cats'', ''and'', ''dogs'']]
       [[''cat'']] 1 = Inr ([1], [- 1])"
    by (simp add: example_reversed_lib_def)
  show ?thesis
    using example_ready_memory(1) h3 h4
      negative_index_is_surfaced [OF example_ready_memory h3 h4]
    by simp
qed

subsection \<open>The retrieve contract\<close>

lemma retrieve_spec_indices:
  "map fst (retrieve_spec sc a q k) = take k (sort_key (\<lambda>d. - sc a q d) [0..<length a])"
  by (simp add: retrieve_spec_def comp_def)

lemma length_retrieve_spec: "length (retrieve_spec sc a q k) = min k (length a)"
  by (simp add: retrieve_spec_def min.commute)

lemma set_retrieve_spec_subset: "set (map fst (retrieve_spec sc a q k)) \<subseteq> {0..<length a}"
proof -
  have "set (take k (sort_key (\<lambda>d. - sc a q d) [0..<length a])) \<subseteq>
        set (sort_key (\<lambda>d. - sc a q d) [0..<length a])"
    by (rule set_take_subset)
  then show ?thesis by (simp add: retrieve_spec_indices)
qed

lemma set_retrieve_spec_all:
  "length a \<le> k \<Longrightarrow> set (map fst (retrieve_spec sc a q k)) = {0..<length a}"
  by (simp add: retrieve_spec_indices)

lemma distinct_retrieve_spec: "distinct (map fst (retrieve_spec sc a q k))"
  by (simp add: retrieve_spec_indices)

text \<open>
  The loop of \<^verbatim>\<open>search_index\<close> on pairs whose indices are all in range of aligned
  metadata lists: no pair is dropped and nothing raises.
\<close>

lemma format_results_in_range:
  assumes "\<forall>p \<in> set ps. 0 \<le> snd p \<and> snd p < int (length (chunk_ids md))"
    and "length (chunk_metadata md) = length (chunk_ids md)"
  shows "\<exists>hits. format_results md i ps = Inr hits \<and> length hits = length ps \<and>
           map chunk_id hits = map (\<lambda>p. chunk_ids md ! nat (snd p)) ps"
  using assms(1)
proof (induction ps arbitrary: i)
  case Nil
  then show ?case by simp
next
  case (Cons p ps)
  obtain sc idx where p: "p = (sc, idx)" by (cases p)
  from Cons.prems p have r: "0 \<le> idx" "idx < int (length (chunk_ids md))" by auto
  from Cons.prems have "\<forall>p \<in> set ps. 0 \<le> snd p \<and> snd p < int (length (chunk_ids md))"
    by simp
  from Cons.IH [OF this, of "i + 1"] obtain hits where
    h: "format_results md (i + 1) ps = Inr hits" "length hits = length ps"
       "map chunk_id hits = map (\<lambda>p. chunk_ids md ! nat (snd p)) ps"
    by blast
  show ?case
    using p r h assms(2) by (simp add: py_getitem_def)
qed

text \<open>
  C4. For every corpus, scoring function and query, retrieve with parameter \<open>k\<close>
  returns at most \<open>k\<close> results, each a distinct document index of the corpus, and
  when \<open>k\<close> is at least the corpus size it returns every document of the corpus; the
  call returns and does not raise. Through \<^verbatim>\<open>search_index\<close>, on a collection in
  memory whose metadata lists are as long as the corpus, the search returns
  \<open>min k corpus_size\<close> results.
\<close>

theorem retrieve_returns_at_most_k:
  "length (retrieve_spec sc a q k) \<le> k
   \<and> distinct (map fst (retrieve_spec sc a q k))
   \<and> set (map fst (retrieve_spec sc a q k)) \<subseteq> {0..<length a}
   \<and> (length a \<le> k \<longrightarrow>
        length (retrieve_spec sc a q k) = length a \<and>
        set (map fst (retrieve_spec sc a q k)) = {0..<length a})
   \<and> retrieve (spec_engine sc) a [q] (int k) =
        Inr (map snd (retrieve_spec sc a q k), map (\<lambda>r. int (fst r)) (retrieve_spec sc a q k))
   \<and> (indices s f = Some a \<and> metadata s f = Some md \<and> length (chunk_ids md) = length a \<and>
      length (chunk_metadata md) = length a \<longrightarrow>
        (\<exists>hits. fst (search_index (spec_engine sc) query f (int k) s) =
                  Inr \<lparr>sr_status = ''success'', sr_query = query, sr_filename = f,
                       results = hits, total_results = length hits\<rparr> \<and>
                length hits = min k (length a)))"
proof (intro conjI impI)
  show "length (retrieve_spec sc a q k) \<le> k"
    by (simp add: length_retrieve_spec)
  show "distinct (map fst (retrieve_spec sc a q k))"
    by (rule distinct_retrieve_spec)
  show "set (map fst (retrieve_spec sc a q k)) \<subseteq> {0..<length a}"
    by (rule set_retrieve_spec_subset)
  show "length (retrieve_spec sc a q k) = length a" if "length a \<le> k"
    using that by (simp add: length_retrieve_spec)
  show "set (map fst (retrieve_spec sc a q k)) = {0..<length a}" if "length a \<le> k"
    using that by (rule set_retrieve_spec_all)
  show "retrieve (spec_engine sc) a [q] (int k) =
        Inr (map snd (retrieve_spec sc a q k), map (\<lambda>r. int (fst r)) (retrieve_spec sc a q k))"
    by (simp add: spec_engine_def Let_def)
next
  assume pre: "indices s f = Some a \<and> metadata s f = Some md \<and>
    length (chunk_ids md) = length a \<and> length (chunk_metadata md) = length a"
  define rs where "rs = retrieve_spec sc a (tokenize_spec query) k"
  define ps where "ps = zip (map snd rs) (map (\<lambda>r. int (fst r)) rs)"
  have len: "length ps = min k (length a)"
    by (simp add: ps_def rs_def length_retrieve_spec)
  have sub: "set (map fst rs) \<subseteq> {0..<length a}"
    unfolding rs_def by (rule set_retrieve_spec_subset)
  have "0 \<le> snd p \<and> snd p < int (length (chunk_ids md))" if "p \<in> set ps" for p
  proof -
    obtain x y where xy: "p = (x, y)" by (cases p)
    with that have "(x, y) \<in> set (zip (map snd rs) (map (\<lambda>r. int (fst r)) rs))"
      by (simp only: ps_def)
    then have "y \<in> set (map (\<lambda>r. int (fst r)) rs)"
      by (rule set_zip_rightD)
    with xy have "snd p \<in> set (map (\<lambda>r. int (fst r)) rs)"
      by simp
    then obtain r where r: "r \<in> set rs" "snd p = int (fst r)" by auto
    from r(1) sub have "fst r < length a" by force
    with r(2) pre show ?thesis by simp
  qed
  then have "\<forall>p \<in> set ps. 0 \<le> snd p \<and> snd p < int (length (chunk_ids md))"
    by blast
  moreover have "length (chunk_metadata md) = length (chunk_ids md)"
    using pre by simp
  ultimately obtain hits where
    h: "format_results md 0 ps = Inr hits" "length hits = length ps"
    using format_results_in_range [of ps md 0] by blast
  have "fst (search_index (spec_engine sc) query f (int k) s) =
          Inr \<lparr>sr_status = ''success'', sr_query = query, sr_filename = f,
               results = hits, total_results = length hits\<rparr>"
    using pre h(1) by (simp add: search_in_memory spec_engine_def Let_def ps_def rs_def)
  with h(2) len show "\<exists>hits. fst (search_index (spec_engine sc) query f (int k) s) =
                  Inr \<lparr>sr_status = ''success'', sr_query = query, sr_filename = f,
                       results = hits, total_results = length hits\<rparr> \<and>
                length hits = min k (length a)"
    by auto
qed

theorem retrieve_returns_at_most_k_witness:
  "length [[''the'', ''cat'', ''sat''], [''the'', ''dog'', ''ran''], [''cats'', ''and'', ''dogs'']] \<le> (10::nat)
   \<and> length (retrieve_spec example_score
        [[''the'', ''cat'', ''sat''], [''the'', ''dog'', ''ran''], [''cats'', ''and'', ''dogs'']]
        [''cat''] 10) = 3
   \<and> map fst (retrieve_spec example_score
        [[''the'', ''cat'', ''sat''], [''the'', ''dog'', ''ran''], [''cats'', ''and'', ''dogs'']]
        [''cat''] 10) = [0, 1, 2]
   \<and> length (retrieve_spec example_score
        [[''the'', ''cat'', ''sat''], [''the'', ''dog'', ''ran''], [''cats'', ''and'', ''dogs'']]
        [''cat''] 2) \<le> 2
   \<and> indices example_ready ''a'' =
       Some [[''the'', ''cat'', ''sat''], [''the'', ''dog'', ''ran''], [''cats'', ''and'', ''dogs'']]
   \<and> metadata example_ready ''a'' =
       Some \<lparr>md_filename = ''a'', chunk_count = 3, chunk_ids = [''c1'', ''c2'', ''c3''],
             chunk_metadata = [''m1'', ''m2'', ''m3''], created_at = ''t0'', corpus_size = 3\<rparr>
   \<and> total_results (projr (fst (search_index example_lib ''cat'' ''a'' 10 example_ready))) = 3
   \<and> map chunk_id (results (projr (fst (search_index example_lib ''cat'' ''a'' 10 example_ready)))) =
       [''c1'', ''c2'', ''c3'']"
proof -
  note at_10 = retrieve_returns_at_most_k [where sc = example_score and k = 10 and q = "[''cat'']"
        and a = "[[''the'', ''cat'', ''sat''], [''the'', ''dog'', ''ran''], [''cats'', ''and'', ''dogs'']]"
        and s = example_ready and f = "''a''" and query = "''cat''"
        and md = "\<lparr>md_filename = ''a'', chunk_count = 3, chunk_ids = [''c1'', ''c2'', ''c3''],
             chunk_metadata = [''m1'', ''m2'', ''m3''], created_at = ''t0'', corpus_size = 3\<rparr>"]
  have ev: "map fst (retrieve_spec example_score
        [[''the'', ''cat'', ''sat''], [''the'', ''dog'', ''ran''], [''cats'', ''and'', ''dogs'']]
        [''cat''] 10) = [0, 1, 2]"
    by (simp add: retrieve_spec_def example_score_def upt_rec)
  have se: "fst (search_index example_lib ''cat'' ''a'' 10 example_ready) =
      Inr \<lparr>sr_status = ''success'', sr_query = ''cat'', sr_filename = ''a'',
            results = [\<lparr>rank = 1, chunk_id = ''c1'', score = 1, hit_metadata = ''m1''\<rparr>,
                       \<lparr>rank = 2, chunk_id = ''c2'', score = 0, hit_metadata = ''m2''\<rparr>,
                       \<lparr>rank = 3, chunk_id = ''c3'', score = 0, hit_metadata = ''m3''\<rparr>],
            total_results = 3\<rparr>"
    by (simp add: example_defs service_defs retrieve_spec_def Let_def upt_rec)
  have all: "length (retrieve_spec example_score
        [[''the'', ''cat'', ''sat''], [''the'', ''dog'', ''ran''], [''cats'', ''and'', ''dogs'']]
        [''cat''] 10) = 3"
    using at_10 by simp
  have found: "total_results (projr (fst (search_index example_lib ''cat'' ''a'' 10 example_ready))) = 3"
    using at_10 example_ready_memory by (auto simp: example_lib_def)
  have two: "length (retrieve_spec example_score
        [[''the'', ''cat'', ''sat''], [''the'', ''dog'', ''ran''], [''cats'', ''and'', ''dogs'']]
        [''cat''] 2) \<le> 2"
    using retrieve_returns_at_most_k [where sc = example_score and k = 2 and q = "[''cat'']"
        and a = "[[''the'', ''cat'', ''sat''], [''the'', ''dog'', ''ran''], [''cats'', ''and'', ''dogs'']]"
        and s = example_ready and f = "''a''"]
    by blast
  show ?thesis
    using ev se all two found example_ready_memory by simp
qed

subsection \<open>The empty collection\<close>

lemma retrieve_spec_empty: "retrieve_spec sc [] q k = []"
  by (simp add: retrieve_spec_def)

text \<open>
  C8. With the engine of the specification, \<^verbatim>\<open>create_index\<close> with an empty chunk
  list (replacing, or on a name not in memory) returns the status \<^verbatim>\<open>"indexed"\<close>
  whatever happens to the save, the metadata of the collection has \<open>corpus_size = 0\<close>
  and no chunk ids, and every search on the state it leaves returns the empty result
  list with \<open>total_results = 0\<close>, for every query and every \<^verbatim>\<open>top_k\<close>.
\<close>

theorem create_empty_then_search_empty:
  assumes "rep \<or> indices s f = None"
  shows "fst (create_index (spec_engine sc) io now [] f rep s) =
           Inr \<lparr>cr_status = ''indexed'', cr_filename = f, cr_chunks = 0,
                 cr_created_at = Some now\<rparr>
       \<and> metadata (snd (create_index (spec_engine sc) io now [] f rep s)) f =
           Some \<lparr>md_filename = f, chunk_count = 0, chunk_ids = [], chunk_metadata = [],
                 created_at = now, corpus_size = 0\<rparr>
       \<and> fst (search_index (spec_engine sc) q f k
              (snd (create_index (spec_engine sc) io now [] f rep s))) =
           Inr \<lparr>sr_status = ''success'', sr_query = q, sr_filename = f,
                 results = [], total_results = 0\<rparr>"
proof -
  have t: "tokenize (spec_engine sc) (map cd_text []) = Inr []"
    by (simp add: spec_engine_def)
  have b: "BM25_index (spec_engine sc) [] = Inr []"
    by (simp add: spec_engine_def)
  show ?thesis
    unfolding create_builds [OF t b assms]
    by (simp add: search_in_memory)
       (simp add: spec_engine_def retrieve_spec_empty)
qed

theorem create_empty_then_search_empty_witness:
  "(True \<or> indices example_ready ''a'' = None)
   \<and> fst (create_index example_lib NoSaveFault ''t1'' [] ''a'' True example_ready) =
       Inr \<lparr>cr_status = ''indexed'', cr_filename = ''a'', cr_chunks = 0,
             cr_created_at = Some ''t1''\<rparr>
   \<and> fst (search_index example_lib ''cat'' ''a'' 10
          (snd (create_index example_lib NoSaveFault ''t1'' [] ''a'' True example_ready))) =
       Inr \<lparr>sr_status = ''success'', sr_query = ''cat'', sr_filename = ''a'',
             results = [], total_results = 0\<rparr>"
proof -
  have h: "True \<or> indices example_ready ''a'' = None" by simp
  show ?thesis
    using create_empty_then_search_empty [OF h, where sc = example_score and io = NoSaveFault
        and now = "''t1''" and q = "''cat''" and k = 10]
    by (simp add: example_lib_def)
qed

end
